theory Spec2Isabelle
  imports
    Complex_Main
    "HOL-Library.Char_ord"
    "HOL-Library.List_Lexorder"
    "HOL-Library.Product_Lexorder"
begin

section \<open>Cells of the raw worksheet\<close>

text \<open>
  \<^verbatim>\<open>pd.read_excel(..., header=None)\<close> yields a rectangular frame of heterogeneous cells:
  text, numbers, or the missing marker (NaN / None / \<^verbatim>\<open>pd.NA\<close>). A number is a float64
  other than NaN (NaN is the missing marker), so it is a finite value or one of the two
  infinities. The finite values are kept as rationals: nothing below depends on rounding.
\<close>

datatype number = Finite rat | PosInf | NegInf

datatype cell = Empty | Text string | Num number

type_synonym grid = "cell list list"

text \<open>\<^verbatim>\<open>pd.isna(value)\<close> and \<^verbatim>\<open>Series.notna()\<close> on one cell.\<close>

fun isna :: "cell \<Rightarrow> bool" where
  "isna Empty = True"
| "isna (Text s) = False"
| "isna (Num n) = False"

definition notna :: "cell \<Rightarrow> bool" where
  "notna c = (\<not> isna c)"

text \<open>
  Python's \<^verbatim>\<open>str(value)\<close> on a non-missing cell. The text of a string is the string; the
  decimal rendering of a float is the interpreter's, taken as the parameter \<open>str_num\<close>.
  On the missing marker the source never calls it (the \<^verbatim>\<open>pd.isna\<close> branch is taken
  first); \<^verbatim>\<open>str(float('nan'))\<close> is \<^verbatim>\<open>'nan'\<close>.
\<close>

fun str :: "(number \<Rightarrow> string) \<Rightarrow> cell \<Rightarrow> string" where
  "str str_num (Text s) = s"
| "str str_num (Num n) = str_num n"
| "str str_num Empty = ''nan''"

text \<open>\<^verbatim>\<open>s.endswith(suf)\<close>.\<close>

definition endswith :: "string \<Rightarrow> string \<Rightarrow> bool" where
  "endswith s suf = (length suf \<le> length s \<and> drop (length s - length suf) s = suf)"

section \<open>Header reconstruction\<close>

text \<open>
  \<^verbatim>\<open>montar_nomes_colunas\<close> (\<^verbatim>\<open>_build_columns\<close> in the second script is the same code):
  \<^verbatim>\<open>
    colunas = []
    for idx, valor in enumerate(linha_cabecalho):
        if idx == 0:
            colunas.append("geo"); continue
        if pd.isna(valor):
            colunas.append(f"{colunas[-1]}_flag")
        else:
            colunas.append(str(valor))
    return colunas
  \<close>
  The loop is a recursion over the remaining header cells that carries the index and the
  list built so far. \<^verbatim>\<open>colunas[-1]\<close> is read only when \<open>idx > 0\<close>, where the list is
  not empty (lemma \<open>montar_loop_nonempty\<close>).
\<close>

fun montar_loop :: "(number \<Rightarrow> string) \<Rightarrow> nat \<Rightarrow> cell list \<Rightarrow> string list \<Rightarrow> string list" where
  "montar_loop str_num idx [] colunas = colunas"
| "montar_loop str_num idx (valor # resto) colunas =
     (if idx = 0 then montar_loop str_num (Suc idx) resto (colunas @ [''geo''])
      else if isna valor then
        montar_loop str_num (Suc idx) resto (colunas @ [last colunas @ ''_flag''])
      else montar_loop str_num (Suc idx) resto (colunas @ [str str_num valor]))"

definition montar_nomes_colunas :: "(number \<Rightarrow> string) \<Rightarrow> cell list \<Rightarrow> string list" where
  "montar_nomes_colunas str_num linha_cabecalho = montar_loop str_num 0 linha_cabecalho []"

definition build_columns :: "(number \<Rightarrow> string) \<Rightarrow> cell list \<Rightarrow> string list" where
  "build_columns str_num header_row = montar_loop str_num 0 header_row []"

section \<open>Table loader\<close>

text \<open>
  The exceptions the loader can end with. \<open>IndexError\<close>: a positional read outside the
  frame. \<open>KeyError\<close>: a column label that is not there. \<open>ValueError\<close>: raised by
  \<^verbatim>\<open>melt\<close> (the value name is already a column) and by \<^verbatim>\<open>pd.Categorical\<close> (categories
  not unique). \<open>FrameError\<close> stands for the exception pandas ends with when the label
  \<open>geo\<close> names more than one column: \<^verbatim>\<open>dados["geo"]\<close> is then a frame and not a series,
  and \<^verbatim>\<open>melt(id_vars="geo")\<close> cannot build its identifier column.
\<close>

datatype error = IndexError | KeyError | ValueError | FrameError

text \<open>
  \<^verbatim>\<open>bruto.iloc[i]\<close>: positional row access; a negative index counts from the end, an index
  outside the frame raises.
\<close>

definition iloc_row :: "grid \<Rightarrow> int \<Rightarrow> error + cell list" where
  "iloc_row bruto i =
     (let n = int (length bruto); j = (if i < 0 then n + i else i)
      in if 0 \<le> j \<and> j < n then Inr (bruto ! nat j) else Inl IndexError)"

text \<open>
  \<^verbatim>\<open>bruto.iloc[i:].reset_index(drop=True)\<close>: a positional slice never raises; a start beyond
  the end gives the empty frame, a negative start counts from the end and stops at row 0.
\<close>

definition iloc_from :: "grid \<Rightarrow> int \<Rightarrow> grid" where
  "iloc_from bruto i =
     (let n = int (length bruto); j = (if i < 0 then max (n + i) 0 else i)
      in drop (nat j) bruto)"

text \<open>
  One cell of a row by position. A frame is rectangular, so the position is always inside
  the row; a shorter row reads as padded with the missing marker, as pandas pads.
\<close>

definition cell_at :: "cell list \<Rightarrow> nat \<Rightarrow> cell" where
  "cell_at row j = (if j < length row then row ! j else Empty)"

text \<open>Position of a column label (its first occurrence).\<close>

fun label_index :: "string list \<Rightarrow> string \<Rightarrow> nat" where
  "label_index [] c = 0"
| "label_index (x # xs) c = (if x = c then 0 else Suc (label_index xs c))"

text \<open>\<^verbatim>\<open>dados[keys]\<close>: the columns named by \<open>keys\<close>, in that order.\<close>

definition select_columns :: "string list \<Rightarrow> string list \<Rightarrow> grid \<Rightarrow> grid" where
  "select_columns colunas keys dados =
     map (\<lambda>row. map (\<lambda>c. cell_at row (label_index colunas c)) keys) dados"

text \<open>\<^verbatim>\<open>.replace({":": pd.NA})\<close> on every cell of the selected frame.\<close>

definition replace_sentinel :: "cell \<Rightarrow> cell" where
  "replace_sentinel c = (if c = Text '':'' then Empty else c)"

text \<open>
  One row of the long table, with the column names of the first script (the second calls
  them \<open>geo\<close>, \<open>quarter\<close> and \<open>vacancy_rate\<close>). The value column is a float column:
  \<open>None\<close> is NaN, which \<^verbatim>\<open>dropna\<close> removes afterwards.
\<close>

record tidy_row =
  geo :: cell
  trimestre :: string
  taxa_vaga :: "number option"

text \<open>
  \<^verbatim>\<open>pd.to_numeric(..., errors="coerce")\<close> on one cell of the object column: a number stays,
  the missing marker is NaN, a string is parsed by pandas' float parser (the parameter
  \<open>parse\<close>), NaN when it does not parse.
\<close>

fun to_numeric :: "(string \<Rightarrow> number option) \<Rightarrow> cell \<Rightarrow> number option" where
  "to_numeric parse Empty = None"
| "to_numeric parse (Text s) = parse s"
| "to_numeric parse (Num n) = Some n"

text \<open>
  \<^verbatim>\<open>.melt(id_vars="geo", var_name=..., value_name=...)\<close> on a frame whose column 0 is
  \<open>geo\<close> and whose column \<open>k + 1\<close> is the \<open>k\<close>-th value column: pandas stacks the value
  columns one after the other, each with all the rows of the frame in their order,
  followed by the numeric coercion of the value column.
\<close>

definition melt :: "(string \<Rightarrow> number option) \<Rightarrow> string list \<Rightarrow> grid \<Rightarrow> tidy_row list" where
  "melt parse value_vars frame =
     concat (map (\<lambda>k. map (\<lambda>row. \<lparr>geo = cell_at row 0, trimestre = value_vars ! k,
                                     taxa_vaga = to_numeric parse (cell_at row (Suc k))\<rparr>) frame)
                 [0 ..< length value_vars])"

text \<open>\<^verbatim>\<open>.dropna(subset=[value_name])\<close>.\<close>

definition dropna :: "tidy_row list \<Rightarrow> tidy_row list" where
  "dropna rows = filter (\<lambda>r. taxa_vaga r \<noteq> None) rows"

text \<open>
  The long table with its period column as an ordered categorical: the rows and the
  category list that \<^verbatim>\<open>pd.Categorical(..., categories=colunas_valor, ordered=True)\<close>
  attaches to them.
\<close>

record tidy_frame =
  tidy_rows :: "tidy_row list"
  categories :: "string list"

text \<open>
  The body that \<^verbatim>\<open>carregar_tabela_vagas\<close> and \<^verbatim>\<open>load_sheet19_table\<close> share, from the
  header row on. They differ in the name of the value column (\<open>value_name\<close>), and the
  second fixes the row indices.
  \<^verbatim>\<open>
    cabecalho = bruto.iloc[linha_cabecalho]
    colunas = montar_nomes_colunas(cabecalho)
    dados = bruto.iloc[linha_inicio_dados:].reset_index(drop=True)
    dados.columns = colunas
    dados = dados[dados["geo"].notna()]
    colunas_valor = [col for col in colunas if col != "geo" and not col.endswith("_flag")]
    arrumado = (dados[["geo"] + colunas_valor].replace({":": pd.NA})
                .melt(id_vars="geo", var_name="trimestre", value_name="taxa_vaga"))
    arrumado["taxa_vaga"] = pd.to_numeric(arrumado["taxa_vaga"], errors="coerce")
    arrumado = arrumado.dropna(subset=["taxa_vaga"])
    arrumado["trimestre"] = pd.Categorical(arrumado["trimestre"],
                                           categories=colunas_valor, ordered=True)
    return arrumado, colunas_valor
  \<close>
\<close>

definition load_table ::
  "string \<Rightarrow> (number \<Rightarrow> string) \<Rightarrow> (string \<Rightarrow> number option) \<Rightarrow> grid \<Rightarrow> int \<Rightarrow> int
     \<Rightarrow> error + (tidy_frame \<times> string list)" where
  "load_table value_name str_num parse bruto linha_cabecalho linha_inicio_dados =
     (case iloc_row bruto linha_cabecalho of
        Inl e \<Rightarrow> Inl e
      | Inr cabecalho \<Rightarrow>
          let colunas = montar_nomes_colunas str_num cabecalho;
              dados = iloc_from bruto linha_inicio_dados
          in if ''geo'' \<notin> set colunas then Inl KeyError
             else if ''geo'' \<in> set (tl colunas) then Inl FrameError
             else
               let dados = filter (\<lambda>row. notna (cell_at row (label_index colunas ''geo''))) dados;
                   colunas_valor =
                     filter (\<lambda>col. col \<noteq> ''geo'' \<and> \<not> endswith col ''_flag'') colunas;
                   frame = map (map replace_sentinel)
                             (select_columns colunas (''geo'' # colunas_valor) dados)
               in if value_name \<in> set colunas_valor then Inl ValueError
                  else if \<not> distinct colunas_valor then Inl ValueError
                  else Inr (\<lparr>tidy_rows = dropna (melt parse colunas_valor frame),
                             categories = colunas_valor\<rparr>, colunas_valor))"

text \<open>
  \<^verbatim>\<open>area_trabalho\<close>: the optional label of cell (6, 2), read inside \<^verbatim>\<open>try/except\<close>, so
  a frame too small for it gives \<open>None\<close>.
\<close>

definition area_trabalho :: "(number \<Rightarrow> string) \<Rightarrow> grid \<Rightarrow> string option" where
  "area_trabalho str_num bruto =
     (if 6 < length bruto \<and> 2 < length (bruto ! 6)
      then (let celula_area = bruto ! 6 ! 2
            in if notna celula_area then Some (str str_num celula_area) else None)
      else None)"

definition carregar_tabela_vagas ::
  "(number \<Rightarrow> string) \<Rightarrow> (string \<Rightarrow> number option) \<Rightarrow> grid \<Rightarrow> int \<Rightarrow> int
     \<Rightarrow> error + (tidy_frame \<times> string list \<times> string option)" where
  "carregar_tabela_vagas str_num parse bruto linha_cabecalho linha_inicio_dados =
     (case load_table ''taxa_vaga'' str_num parse bruto linha_cabecalho linha_inicio_dados of
        Inl e \<Rightarrow> Inl e
      | Inr (arrumado, colunas_valor) \<Rightarrow>
          Inr (arrumado, colunas_valor, area_trabalho str_num bruto))"

definition load_sheet19_table ::
  "(number \<Rightarrow> string) \<Rightarrow> (string \<Rightarrow> number option) \<Rightarrow> grid
     \<Rightarrow> error + (tidy_frame \<times> string list)" where
  "load_sheet19_table str_num parse raw = load_table ''vacancy_rate'' str_num parse raw 10 12"

text \<open>
  For the worked examples: what pandas' float parser gives on the few strings they use.
  Every other string is left unparsed here; no general statement below depends on it.
\<close>

definition parse_sample :: "string \<Rightarrow> number option" where
  "parse_sample s =
     (if s = ''inf'' then Some PosInf
      else if s = ''-inf'' then Some NegInf
      else if s = ''4.1'' then Some (Finite (41 / 10))
      else None)"

definition str_num_sample :: "number \<Rightarrow> string" where
  "str_num_sample n = (if n = Finite 2022 then ''2022'' else ''0'')"

subsection \<open>Vocabulary for the statements about the loader\<close>

text \<open>The test of the comprehension that builds \<^verbatim>\<open>colunas_valor\<close>.\<close>

definition value_label :: "string \<Rightarrow> bool" where
  "value_label col = (col \<noteq> ''geo'' \<and> \<not> endswith col ''_flag'')"

text \<open>The data rows that survive \<^verbatim>\<open>dados[dados["geo"].notna()]\<close>, in their order.\<close>

definition kept_rows :: "grid \<Rightarrow> int \<Rightarrow> grid" where
  "kept_rows bruto linha_inicio_dados =
     filter (\<lambda>row. notna (cell_at row 0)) (iloc_from bruto linha_inicio_dados)"

text \<open>The cell of a data row under the column labelled \<open>c\<close>, after the sentinel replacement.\<close>

definition source_cell :: "string list \<Rightarrow> cell list \<Rightarrow> string \<Rightarrow> cell" where
  "source_cell colunas row c = replace_sentinel (cell_at row (label_index colunas c))"

text \<open>The long row that \<^verbatim>\<open>melt\<close> and \<^verbatim>\<open>to_numeric\<close> make of one data row and one value column.\<close>

definition long_row ::
  "(string \<Rightarrow> number option) \<Rightarrow> string list \<Rightarrow> string \<Rightarrow> cell list \<Rightarrow> tidy_row" where
  "long_row parse colunas c row =
     \<lparr>geo = replace_sentinel (cell_at row 0), trimestre = c,
      taxa_vaga = to_numeric parse (source_cell colunas row c)\<rparr>"

text \<open>A cell that yields a record: not the sentinel, and numeric after coercion.\<close>

definition yields_value :: "(string \<Rightarrow> number option) \<Rightarrow> cell \<Rightarrow> bool" where
  "yields_value parse v = (v \<noteq> Text '':'' \<and> to_numeric parse v \<noteq> None)"

section \<open>Output CSV\<close>

text \<open>
  \<^verbatim>\<open>dados_arrumados.to_csv(caminho_csv, index=False)\<close>: the header line, then one line per
  row of the frame, in the order of the frame. A line is kept as its three fields.
\<close>

definition to_csv :: "string list \<Rightarrow> tidy_frame \<Rightarrow> string list \<times> (cell \<times> string \<times> number option) list" where
  "to_csv header arrumado =
     (header, map (\<lambda>r. (geo r, trimestre r, taxa_vaga r)) (tidy_rows arrumado))"

section \<open>Wide form\<close>

text \<open>
  The re-pivot of the round-trip property, in the words of the specification: the long
  table back to wide form, keyed on (entity, period). The scripts have no such function;
  the definition serves to state the property. As \<^verbatim>\<open>DataFrame.pivot\<close>, it refuses a table
  in which one key occurs twice.
\<close>

definition spec_pivot :: "tidy_row list \<Rightarrow> error + (cell \<times> string \<rightharpoonup> number option)" where
  "spec_pivot rows =
     (if distinct (map (\<lambda>r. (geo r, trimestre r)) rows)
      then Inr (map_of (map (\<lambda>r. ((geo r, trimestre r), taxa_vaga r)) rows))
      else Inl ValueError)"

section \<open>Chart renderer\<close>

text \<open>
  What reaches the file system: \<^verbatim>\<open>caminho_saida.parent.mkdir(parents=True, exist_ok=True)\<close>
  and \<^verbatim>\<open>fig.savefig(caminho_saida, dpi=300)\<close>. A path is its list of components. The
  figure is kept as its title and its line series, one per \<^verbatim>\<open>ax.plot(x, y, label=geo)\<close>.
\<close>

type_synonym path = "string list"

record serie =
  rotulo :: string
  x_data :: "string list"
  y_data :: "number option list"

record chart =
  titulo :: string
  series :: "serie list"

datatype fs_effect = Mkdir path | Savefig path chart

definition parent :: "path \<Rightarrow> path" where
  "parent p = butlast p"

text \<open>\<^verbatim>\<open>dados_arrumados["geo"].isin(paises)\<close> on one row: the requested labels are strings.\<close>

fun isin :: "cell \<Rightarrow> string list \<Rightarrow> bool" where
  "isin (Text s) paises = (s \<in> set paises)"
| "isin Empty paises = False"
| "isin (Num n) paises = False"

text \<open>The entity label of a row of the selection (every row of it holds a string).\<close>

fun entity :: "cell \<Rightarrow> string" where
  "entity (Text s) = s"
| "entity Empty = []"
| "entity (Num n) = []"

text \<open>
  \<^verbatim>\<open>recorte.sort_values(["geo", "trimestre"])\<close>: a stable sort on the pair of the entity
  label (strings compare by code point) and the code of the period, which for an ordered
  categorical is its position in the categories; a period outside them is NaN and sorts
  last.
\<close>

definition sort_values :: "string list \<Rightarrow> tidy_row list \<Rightarrow> tidy_row list" where
  "sort_values cats rows =
     sort_key (\<lambda>r. (entity (geo r), label_index cats (trimestre r))) rows"

text \<open>
  \<^verbatim>\<open>recorte.groupby("geo")\<close>: one group per entity label, the labels in increasing order,
  the rows of a group in the order of the frame.
\<close>

definition groupby_geo :: "tidy_row list \<Rightarrow> (string \<times> tidy_row list) list" where
  "groupby_geo rows =
     map (\<lambda>k. (k, filter (\<lambda>r. entity (geo r) = k) rows))
         (sort (remdups (map (\<lambda>r. entity (geo r)) rows)))"

text \<open>
  The body that \<^verbatim>\<open>plotar_taxa_vagas\<close> and \<^verbatim>\<open>plot_job_vacancies\<close> share; they differ in
  the title. The period order handed in is not read: the order is the one the loader
  attached to the period column.
  \<^verbatim>\<open>
    paises = list(paises)
    recorte = dados_arrumados[dados_arrumados["geo"].isin(paises)].copy()
    if recorte.empty:
        raise ValueError("Nenhuma linha encontrada para os paises informados.")
    recorte = recorte.sort_values(["geo", "trimestre"])
    caminho_saida.parent.mkdir(parents=True, exist_ok=True)
    fig, ax = plt.subplots(figsize=(10, 5))
    for geo, grupo in recorte.groupby("geo"):
        ax.plot(grupo["trimestre"].astype(str), grupo["taxa_vaga"], marker="o", label=geo)
    ...
    fig.savefig(caminho_saida, dpi=300)
  \<close>
\<close>

definition plot_lines ::
  "string \<Rightarrow> tidy_frame \<Rightarrow> string list \<Rightarrow> string list \<Rightarrow> path \<Rightarrow> fs_effect list
     \<Rightarrow> (error + unit) \<times> fs_effect list" where
  "plot_lines title dados_arrumados ordem_trimestres paises caminho_saida fs =
     (let recorte = filter (\<lambda>r. isin (geo r) paises) (tidy_rows dados_arrumados)
      in if recorte = [] then (Inl ValueError, fs)
         else
           let recorte = sort_values (categories dados_arrumados) recorte;
               fs = fs @ [Mkdir (parent caminho_saida)];
               linhas = map (\<lambda>(k, grupo). \<lparr>rotulo = k, x_data = map trimestre grupo,
                                              y_data = map taxa_vaga grupo\<rparr>) (groupby_geo recorte)
           in (Inr (), fs @ [Savefig caminho_saida \<lparr>titulo = title, series = linhas\<rparr>]))"

definition plotar_taxa_vagas ::
  "tidy_frame \<Rightarrow> string list \<Rightarrow> string list \<Rightarrow> string \<Rightarrow> path \<Rightarrow> fs_effect list
     \<Rightarrow> (error + unit) \<times> fs_effect list" where
  "plotar_taxa_vagas dados_arrumados ordem_trimestres paises nome_aba caminho_saida fs =
     plot_lines (''Taxa de vagas de trabalho - '' @ nome_aba)
       dados_arrumados ordem_trimestres paises caminho_saida fs"

definition plot_job_vacancies ::
  "tidy_frame \<Rightarrow> string list \<Rightarrow> string list \<Rightarrow> path \<Rightarrow> fs_effect list
     \<Rightarrow> (error + unit) \<times> fs_effect list" where
  "plot_job_vacancies tidy_data quarters_order countries output_path fs =
     plot_lines (''Eurostat Job Vacancy Rate '' @ [CHR 0xE2, CHR 0x80, CHR 0x93] @ '' Sheet 19'')
       tidy_data quarters_order countries output_path fs"

section \<open>Worked examples\<close>

text \<open>
  The example of the specification: header row \<open>geo, 2022-Q1, -, 2022-Q2, -\<close> and the data
  row \<open>Spain, 4.1, u, :, u\<close>, here followed by a footnote row without identifier.
\<close>

definition example_grid :: grid where
  "example_grid =
     [[Text ''geo'', Text ''2022-Q1'', Empty, Text ''2022-Q2'', Empty],
      [Text ''Spain'', Num (Finite (41 / 10)), Text ''u'', Text '':'', Text ''u''],
      [Empty, Text ''Source: Eurostat'', Empty, Num (Finite 7), Empty]]"

text \<open>Two entities and two periods, every cell a number.\<close>

definition two_by_two :: grid where
  "two_by_two =
     [[Text ''geo'', Text ''2021-Q1'', Text ''2020-Q4''],
      [Text ''Spain'', Num (Finite 1), Num (Finite 3)],
      [Text ''France'', Num (Finite 2), Num (Finite 4)]]"

text \<open>The same entity label on two data rows.\<close>

definition repeated_entity :: grid where
  "repeated_entity =
     [[Text ''geo'', Text ''2022-Q1''],
      [Text ''Spain'', Num (Finite 1)],
      [Text ''Spain'', Num (Finite 2)]]"


text \<open>A present header whose own text ends in \<open>_flag\<close>, over a column of numbers.\<close>

definition flag_named_header :: grid where
  "flag_named_header =
     [[Text ''geo'', Text ''red_flag''],
      [Text ''Spain'', Num (Finite 1)]]"

text \<open>A sheet with the identifier column only.\<close>

definition single_column :: grid where
  "single_column = [[Text ''geo''], [Text ''Spain'']]"

section \<open>Properties of the header reconstruction\<close>

lemma endswith_iff: "endswith s suf \<longleftrightarrow> (\<exists>p. s = p @ suf)"
proof
  assume "endswith s suf"
  then have "take (length s - length suf) s @ suf = s"
    unfolding endswith_def by (metis append_take_drop_id)
  then show "\<exists>p. s = p @ suf" by metis
next
  assume "\<exists>p. s = p @ suf"
  then show "endswith s suf" by (auto simp: endswith_def)
qed

lemma endswith_append [simp]: "endswith (p @ suf) suf"
  by (simp add: endswith_def)

lemma montar_loop_length:
  "length (montar_loop str_num idx cs colunas) = length colunas + length cs"
  by (induction cs arbitrary: idx colunas) auto

lemma montar_loop_prefix:
  "j < length colunas \<Longrightarrow> montar_loop str_num idx cs colunas ! j = colunas ! j"
  by (induction cs arbitrary: idx colunas) (auto simp: nth_append)

lemma montar_loop_nonempty:
  "0 < idx \<Longrightarrow> idx = length colunas \<Longrightarrow> colunas \<noteq> []"
  by auto

lemma montar_loop_step:
  assumes "idx = length colunas" and "k < length cs"
  shows "montar_loop str_num idx cs colunas ! (idx + k) =
           (if idx + k = 0 then ''geo''
            else if isna (cs ! k)
              then montar_loop str_num idx cs colunas ! (idx + k - 1) @ ''_flag''
              else str str_num (cs ! k))"
  using assms
proof (induction cs arbitrary: idx colunas k)
  case Nil
  then show ?case by simp
next
  case (Cons c cs)
  define nxt where "nxt =
    (if idx = 0 then colunas @ [''geo'']
     else if isna c then colunas @ [last colunas @ ''_flag'']
     else colunas @ [str str_num c])"
  have unfold: "montar_loop str_num idx (c # cs) colunas = montar_loop str_num (Suc idx) cs nxt"
    by (simp add: nxt_def)
  have len: "Suc idx = length nxt"
    using Cons.prems(1) by (simp add: nxt_def)
  have pre: "j < Suc idx \<Longrightarrow> montar_loop str_num (Suc idx) cs nxt ! j = nxt ! j" for j
    using montar_loop_prefix [of j nxt str_num "Suc idx" cs] len by simp
  show ?case
  proof (cases k)
    case 0
    have at: "montar_loop str_num idx (c # cs) colunas ! idx = nxt ! idx"
      unfolding unfold using pre [of idx] by simp
    show ?thesis
    proof (cases "idx = 0")
      case True
      with 0 at Cons.prems(1) show ?thesis by (simp add: nxt_def)
    next
      case False
      then have ne: "colunas \<noteq> []" using Cons.prems(1) by auto
      have "montar_loop str_num idx (c # cs) colunas ! (idx - 1) = nxt ! (idx - 1)"
        unfolding unfold using pre [of "idx - 1"] False by simp
      also have "nxt ! (idx - 1) = colunas ! (idx - 1)"
        using False Cons.prems(1) by (simp add: nxt_def nth_append)
      also have "colunas ! (idx - 1) = last colunas"
        using ne Cons.prems(1) by (simp add: last_conv_nth)
      finally have before: "montar_loop str_num idx (c # cs) colunas ! (idx - 1) = last colunas" .
      have here: "nxt ! idx = (if isna c then last colunas @ ''_flag'' else str str_num c)"
        using False Cons.prems(1) by (simp add: nxt_def nth_append)
      from 0 False Cons.prems(1) show ?thesis
        using at before here by (simp del: montar_loop.simps)
    qed
  next
    case (Suc k')
    then have k': "k' < length cs" using Cons.prems(2) by simp
    from Cons.IH [OF len k'] Suc show ?thesis
      unfolding unfold by simp
  qed
qed

section \<open>Properties of the table loader\<close>

lemma montar_length [simp]: "length (montar_nomes_colunas str_num cab) = length cab"
  by (simp add: montar_nomes_colunas_def montar_loop_length)

lemma montar_Nil [simp]: "montar_nomes_colunas str_num [] = []"
  by (simp add: montar_nomes_colunas_def)

lemma montar_hd:
  assumes "cab \<noteq> []"
  shows "montar_nomes_colunas str_num cab = ''geo'' # tl (montar_nomes_colunas str_num cab)"
proof -
  have "montar_nomes_colunas str_num cab ! 0 = ''geo''"
    using montar_loop_step [of 0 "[]" 0 cab str_num] assms
    by (simp add: montar_nomes_colunas_def)
  moreover have "montar_nomes_colunas str_num cab \<noteq> []"
    using assms montar_length [of str_num cab] by (metis length_0_conv)
  ultimately show ?thesis
    by (cases "montar_nomes_colunas str_num cab") auto
qed

lemma geo_in_montar: "''geo'' \<in> set (montar_nomes_colunas str_num cab) \<longleftrightarrow> cab \<noteq> []"
proof (cases "cab = []")
  case True
  then show ?thesis by simp
next
  case False
  then show ?thesis
    using montar_hd [OF False, of str_num] by (metis list.set_intros(1))
qed

lemma label_index_geo:
  "cab \<noteq> [] \<Longrightarrow> label_index (montar_nomes_colunas str_num cab) ''geo'' = 0"
  using montar_hd [of cab str_num] by (metis label_index.simps(2))

lemma label_index_unique:
  assumes "distinct (filter P cs)" and "j < length cs" and "P (cs ! j)"
  shows "label_index cs (cs ! j) = j"
  using assms
proof (induction cs arbitrary: j)
  case Nil
  then show ?case by simp
next
  case (Cons a cs)
  show ?case
  proof (cases j)
    case 0
    then show ?thesis by simp
  next
    case (Suc j')
    with Cons.prems have j': "j' < length cs" and pj: "P (cs ! j')" by simp_all
    have mem: "cs ! j' \<in> set (filter P cs)" using j' pj by simp
    have ne: "a \<noteq> cs ! j'"
    proof
      assume "a = cs ! j'"
      with Cons.prems(1) pj mem show False by simp
    qed
    have "distinct (filter P cs)" using Cons.prems(1) by (simp split: if_splits)
    from Cons.IH [OF this j' pj] ne Suc show ?thesis by simp
  qed
qed

lemma cell_at_0 [simp]: "cell_at (x # xs) 0 = x"
  by (simp add: cell_at_def)

lemma cell_at_Suc_map: "k < length vs \<Longrightarrow> cell_at (x # map f vs) (Suc k) = f (vs ! k)"
  by (simp add: cell_at_def)

lemma melt_conv:
  "melt parse vs (map (map replace_sentinel) (select_columns colunas (''geo'' # vs) dados)) =
   concat (map (\<lambda>c. map (\<lambda>row. \<lparr>geo = replace_sentinel (cell_at row (label_index colunas ''geo'')),
                                   trimestre = c,
                                   taxa_vaga = to_numeric parse (source_cell colunas row c)\<rparr>) dados) vs)"
proof -
  have "melt parse vs (map (map replace_sentinel) (select_columns colunas (''geo'' # vs) dados)) =
        concat (map (\<lambda>k. map (\<lambda>row. \<lparr>geo = replace_sentinel (cell_at row (label_index colunas ''geo'')),
                                   trimestre = vs ! k,
                                   taxa_vaga = to_numeric parse (source_cell colunas row (vs ! k))\<rparr>) dados)
                     [0 ..< length vs])"
    unfolding melt_def select_columns_def map_map comp_def
    by (intro arg_cong [where f = concat] map_cong refl)
       (simp add: cell_at_Suc_map source_cell_def)
  also have "\<dots> = concat (map (\<lambda>c. map (\<lambda>row. \<lparr>geo = replace_sentinel (cell_at row (label_index colunas ''geo'')),
                                   trimestre = c,
                                   taxa_vaga = to_numeric parse (source_cell colunas row c)\<rparr>) dados) vs)"
    by (rule arg_cong [where f = concat]) (simp add: map_equality_iff)
  finally show ?thesis .
qed

lemma load_table_Inr:
  assumes "load_table value_name str_num parse bruto h d = Inr (tidy, po)"
  obtains cab where "iloc_row bruto h = Inr cab" and "cab \<noteq> []"
    and "''geo'' \<notin> set (tl (montar_nomes_colunas str_num cab))"
    and "po = filter value_label (montar_nomes_colunas str_num cab)"
    and "distinct po" and "value_name \<notin> set po" and "categories tidy = po"
    and "tidy_rows tidy =
           concat (map (\<lambda>c. filter (\<lambda>r. taxa_vaga r \<noteq> None)
                              (map (long_row parse (montar_nomes_colunas str_num cab) c)
                                   (kept_rows bruto d))) po)"
proof -
  from assms obtain cab where cab: "iloc_row bruto h = Inr cab"
    by (auto simp: load_table_def split: sum.splits)
  let ?cols = "montar_nomes_colunas str_num cab"
  let ?po = "filter (\<lambda>col. col \<noteq> ''geo'' \<and> \<not> endswith col ''_flag'') ?cols"
  from assms cab have geo: "''geo'' \<in> set ?cols" and tl: "''geo'' \<notin> set (tl ?cols)"
    and vn: "value_name \<notin> set ?po" and dist: "distinct ?po"
    by (auto simp: load_table_def Let_def split: if_splits)
  from geo have ne: "cab \<noteq> []" by (simp add: geo_in_montar)
  have idx0: "label_index ?cols ''geo'' = 0" by (rule label_index_geo [OF ne])
  from assms cab geo tl vn dist have po: "po = ?po"
    and tidy: "tidy = \<lparr>tidy_rows = dropna (melt parse ?po (map (map replace_sentinel)
                   (select_columns ?cols (''geo'' # ?po)
                      (filter (\<lambda>row. notna (cell_at row (label_index ?cols ''geo'')))
                         (iloc_from bruto d))))),
                 categories = ?po\<rparr>"
    by (auto simp: load_table_def Let_def split: if_splits)
  have rows: "tidy_rows tidy =
           concat (map (\<lambda>c. filter (\<lambda>r. taxa_vaga r \<noteq> None)
                              (map (long_row parse ?cols c) (kept_rows bruto d))) po)"
    unfolding tidy po
    by (simp add: melt_conv idx0 kept_rows_def long_row_def [abs_def] dropna_def
          filter_concat comp_def)
  have eq: "?po = filter value_label ?cols"
    by (simp add: value_label_def [abs_def])
  have po': "po = filter value_label ?cols" using po eq by simp
  have d': "distinct po" using dist po by simp
  have v': "value_name \<notin> set po" using vn po by simp
  have c': "categories tidy = po" using tidy po by simp
  show ?thesis
    by (rule that [OF cab ne tl po' d' v' c' rows])
qed


lemma to_numeric_replace:
  "yields_value parse v \<Longrightarrow> to_numeric parse (replace_sentinel v) = to_numeric parse v"
  by (simp add: replace_sentinel_def yields_value_def)

lemma long_rows_filter:
  "filter (\<lambda>r. taxa_vaga r \<noteq> None) (map (long_row parse colunas c) rows) =
   map (long_row parse colunas c)
       (filter (\<lambda>row. yields_value parse (cell_at row (label_index colunas c))) rows)"
  by (induction rows)
     (simp_all add: long_row_def source_cell_def replace_sentinel_def yields_value_def)


lemma tidy_rows_blocks:
  assumes "load_table value_name str_num parse bruto h d = Inr (tidy, po)"
    and "iloc_row bruto h = Inr cab"
  shows "tidy_rows tidy =
           concat (map (\<lambda>c. map (long_row parse (montar_nomes_colunas str_num cab) c)
                       (filter (\<lambda>row. yields_value parse
                                  (cell_at row (label_index (montar_nomes_colunas str_num cab) c)))
                               (kept_rows bruto d))) po)"
proof -
  from assms(1) obtain cab' where cab': "iloc_row bruto h = Inr cab'"
    and rows: "tidy_rows tidy =
           concat (map (\<lambda>c. filter (\<lambda>r. taxa_vaga r \<noteq> None)
                              (map (long_row parse (montar_nomes_colunas str_num cab') c)
                                   (kept_rows bruto d))) po)"
    by (rule load_table_Inr)
  from cab' assms(2) have eq: "cab' = cab" by simp
  show ?thesis
    using rows unfolding eq long_rows_filter .
qed

lemmas load_eval =
  load_table_def iloc_row_def iloc_from_def montar_nomes_colunas_def endswith_def notna_def
  cell_at_def select_columns_def replace_sentinel_def melt_def dropna_def Let_def upt_rec

subsection \<open>The two scripts\<close>

lemma build_columns_eq: "build_columns str_num header_row = montar_nomes_colunas str_num header_row"
  by (simp add: build_columns_def montar_nomes_colunas_def)

lemma carregar_tabela_vagas_Inr:
  "carregar_tabela_vagas str_num parse bruto h d = Inr (tidy, po, area) \<longleftrightarrow>
   load_table ''taxa_vaga'' str_num parse bruto h d = Inr (tidy, po) \<and>
   area = area_trabalho str_num bruto"
  by (auto simp: carregar_tabela_vagas_def split: sum.splits)

lemma carregar_tabela_vagas_Inl:
  "carregar_tabela_vagas str_num parse bruto h d = Inl e \<longleftrightarrow>
   load_table ''taxa_vaga'' str_num parse bruto h d = Inl e"
  by (auto simp: carregar_tabela_vagas_def split: sum.splits)

lemma load_sheet19_table_eq:
  "load_sheet19_table str_num parse raw = load_table ''vacancy_rate'' str_num parse raw 10 12"
  by (simp add: load_sheet19_table_def)

subsection \<open>The worked examples, evaluated\<close>

lemma example_grid_header:
  "iloc_row example_grid 0 = Inr [Text ''geo'', Text ''2022-Q1'', Empty, Text ''2022-Q2'', Empty]"
  by (simp add: iloc_row_def example_grid_def)

lemma example_grid_columns:
  "montar_nomes_colunas str_num [Text ''geo'', Text ''2022-Q1'', Empty, Text ''2022-Q2'', Empty]
   = [''geo'', ''2022-Q1'', ''2022-Q1_flag'', ''2022-Q2'', ''2022-Q2_flag'']"
  by (simp add: montar_nomes_colunas_def)

lemma example_grid_kept:
  "kept_rows example_grid 1 =
     [[Text ''Spain'', Num (Finite (41 / 10)), Text ''u'', Text '':'', Text ''u'']]"
  by (simp add: kept_rows_def iloc_from_def example_grid_def notna_def cell_at_def)

lemma example_grid_load:
  "load_table ''taxa_vaga'' str_num parse example_grid 0 1
   = Inr (\<lparr>tidy_rows = [\<lparr>geo = Text ''Spain'', trimestre = ''2022-Q1'',
                          taxa_vaga = Some (Finite (41 / 10))\<rparr>],
           categories = [''2022-Q1'', ''2022-Q2'']\<rparr>, [''2022-Q1'', ''2022-Q2''])"
  by (simp add: load_eval example_grid_def)

lemma two_by_two_header:
  "iloc_row two_by_two 0 = Inr [Text ''geo'', Text ''2021-Q1'', Text ''2020-Q4'']"
  by (simp add: iloc_row_def two_by_two_def)

lemma two_by_two_kept:
  "kept_rows two_by_two 1 =
     [[Text ''Spain'', Num (Finite 1), Num (Finite 3)],
      [Text ''France'', Num (Finite 2), Num (Finite 4)]]"
  by (simp add: kept_rows_def iloc_from_def two_by_two_def notna_def cell_at_def)

lemma two_by_two_load:
  "load_table ''taxa_vaga'' str_num parse two_by_two 0 1
   = Inr (\<lparr>tidy_rows =
            [\<lparr>geo = Text ''Spain'', trimestre = ''2021-Q1'', taxa_vaga = Some (Finite 1)\<rparr>,
             \<lparr>geo = Text ''France'', trimestre = ''2021-Q1'', taxa_vaga = Some (Finite 2)\<rparr>,
             \<lparr>geo = Text ''Spain'', trimestre = ''2020-Q4'', taxa_vaga = Some (Finite 3)\<rparr>,
             \<lparr>geo = Text ''France'', trimestre = ''2020-Q4'', taxa_vaga = Some (Finite 4)\<rparr>],
           categories = [''2021-Q1'', ''2020-Q4'']\<rparr>, [''2021-Q1'', ''2020-Q4''])"
  by (simp add: load_eval two_by_two_def)

subsection \<open>Order of the long table\<close>

lemma label_index_append:
  "c \<notin> set pre \<Longrightarrow> label_index (pre @ qs) c = length pre + label_index qs c"
  by (induction pre) auto

lemma sorted_period_blocks:
  assumes "distinct (pre @ qs)"
  shows "sorted (concat (map (\<lambda>c. replicate (n c) (label_index (pre @ qs) c)) qs)) \<and>
         (\<forall>i \<in> set (concat (map (\<lambda>c. replicate (n c) (label_index (pre @ qs) c)) qs)).
            length pre \<le> i)"
  using assms
proof (induction qs arbitrary: pre)
  case Nil
  then show ?case by simp
next
  case (Cons a qs)
  have here: "label_index (pre @ a # qs) a = length pre"
    using Cons.prems by (simp add: label_index_append)
  have dist: "distinct ((pre @ [a]) @ qs)" using Cons.prems by simp
  from Cons.IH [OF dist]
  have srt: "sorted (concat (map (\<lambda>c. replicate (n c) (label_index (pre @ a # qs) c)) qs))"
    and low: "\<forall>i \<in> set (concat (map (\<lambda>c. replicate (n c) (label_index (pre @ a # qs) c)) qs)).
                Suc (length pre) \<le> i"
    by simp_all
  have "sorted (replicate (n a) (length pre) @
                concat (map (\<lambda>c. replicate (n c) (label_index (pre @ a # qs) c)) qs))"
    using srt low by (force simp: sorted_append)
  moreover have "\<forall>i \<in> set (replicate (n a) (length pre) @
                concat (map (\<lambda>c. replicate (n c) (label_index (pre @ a # qs) c)) qs)).
                length pre \<le> i"
    using low by force
  ultimately show ?case by (simp add: here)
qed

lemma period_codes_sorted:
  assumes "distinct po" and "\<And>c r. r \<in> set (F c) \<Longrightarrow> trimestre r = c"
  shows "sorted (map (\<lambda>r. label_index po (trimestre r)) (concat (map F po)))"
proof -
  have blk: "map (\<lambda>r. label_index po (trimestre r)) (F c) =
             replicate (length (F c)) (label_index po c)" for c
    using assms(2) by (simp add: map_replicate_const [symmetric] cong: map_cong)
  have "map (\<lambda>r. label_index po (trimestre r)) (concat (map F po)) =
        concat (map (\<lambda>c. replicate (length (F c)) (label_index po c)) po)"
    by (simp add: map_concat comp_def blk)
  also have "sorted \<dots>"
    using sorted_period_blocks [of "[]" po "\<lambda>c. length (F c)"] assms(1) by simp
  finally show ?thesis .
qed

lemma csv_block:
  "map (\<lambda>r. (geo r, trimestre r, taxa_vaga r))
     (map (long_row parse colunas c)
        (filter (\<lambda>row. yields_value parse (cell_at row (label_index colunas c))) rows)) =
   map (\<lambda>row. (replace_sentinel (cell_at row 0), c,
                to_numeric parse (cell_at row (label_index colunas c))))
     (filter (\<lambda>row. yields_value parse (cell_at row (label_index colunas c))) rows)"
  by (induction rows) (simp_all add: long_row_def source_cell_def to_numeric_replace)

subsection \<open>Keys of the long table\<close>

lemma distinct_key_blocks:
  assumes "distinct po" and "distinct (map key rows)"
  shows "distinct (concat (map (\<lambda>c. map (\<lambda>row. (key row, c)) (filter (P c) rows)) po))"
  using assms(1)
proof (induction po)
  case Nil
  then show ?case by simp
next
  case (Cons a po)
  have "distinct (map key (filter (P a) rows))"
    using assms(2) by (rule distinct_map_filter)
  then have blk: "distinct (map (\<lambda>row. (key row, a)) (filter (P a) rows))"
    by (simp add: distinct_map inj_on_def)
  have "snd ` set (concat (map (\<lambda>c. map (\<lambda>row. (key row, c)) (filter (P c) rows)) po)) \<subseteq> set po"
    by auto
  with Cons.prems
  have disj: "set (map (\<lambda>row. (key row, a)) (filter (P a) rows)) \<inter>
              set (concat (map (\<lambda>c. map (\<lambda>row. (key row, c)) (filter (P c) rows)) po)) = {}"
    by auto
  from Cons blk disj show ?case by simp
qed

lemma tidy_keys:
  assumes "load_table value_name str_num parse bruto h d = Inr (tidy, po)"
    and "iloc_row bruto h = Inr cab"
  shows "map (\<lambda>r. (geo r, trimestre r)) (tidy_rows tidy) =
         concat (map (\<lambda>c. map (\<lambda>row. (replace_sentinel (cell_at row 0), c))
                   (filter (\<lambda>row. yields_value parse
                              (cell_at row (label_index (montar_nomes_colunas str_num cab) c)))
                           (kept_rows bruto d))) po)"
  unfolding tidy_rows_blocks [OF assms] map_concat map_map
  by (simp add: comp_def long_row_def)

section \<open>Properties of the chart renderer\<close>

lemma sorted_group_codes:
  "sorted (map (\<lambda>r. label_index cats (trimestre r))
             (filter (\<lambda>r. entity (geo r) = k) (sort_values cats rows)))"
proof -
  let ?key = "\<lambda>r. (entity (geo r), label_index cats (trimestre r))"
  let ?grp = "filter (\<lambda>r. entity (geo r) = k) (sort_values cats rows)"
  have "sorted (map ?key (sort_values cats rows))"
    unfolding sort_values_def by (rule sorted_sort_key)
  then have "sorted (map ?key ?grp)"
    by (rule sorted_filter)
  then have "sorted_wrt (\<lambda>a b. ?key a \<le> ?key b) ?grp"
    by (simp add: sorted_map)
  then have "sorted_wrt (\<lambda>a b. label_index cats (trimestre a) \<le> label_index cats (trimestre b)) ?grp"
  proof (rule sorted_wrt_mono_rel [rotated])
    fix a b
    assume "a \<in> set ?grp" "b \<in> set ?grp" "?key a \<le> ?key b"
    then show "label_index cats (trimestre a) \<le> label_index cats (trimestre b)"
      by (auto simp: less_eq_prod_def)
  qed
  then show ?thesis by (simp add: sorted_map)
qed










text \<open>
  C1. The derived labels are the left-to-right fold the specification describes: there is
  one label per header cell; column 0 is labelled \<open>geo\<close> whatever its cell holds; a later
  column with a missing header cell gets the label derived just before it (original or
  already suffixed) followed by \<open>_flag\<close>; a later column with a present header cell gets
  the text form of that cell.
\<close>

theorem montar_nomes_colunas_fold:
  "length (montar_nomes_colunas str_num cab) = length cab \<and>
   (\<forall>j < length cab.
      montar_nomes_colunas str_num cab ! j =
        (if j = 0 then ''geo''
         else if isna (cab ! j) then montar_nomes_colunas str_num cab ! (j - 1) @ ''_flag''
         else str str_num (cab ! j)))"
  using montar_loop_step [of 0 "[]" _ cab str_num]
  by (simp add: montar_nomes_colunas_def montar_loop_length)

theorem montar_nomes_colunas_fold_witness:
  "montar_nomes_colunas (\<lambda>n. ''num'')
     [Text ''x'', Text ''a'', Empty, Empty, Text ''b'', Empty, Num (Finite 3)]
   = [''geo'', ''a'', ''a_flag'', ''a_flag_flag'', ''b'', ''b_flag'', ''num'']"
  using montar_nomes_colunas_fold
    [of "\<lambda>n. ''num''" "[Text ''x'', Text ''a'', Empty, Empty, Text ''b'', Empty, Num (Finite 3)]"]
  by (simp add: montar_nomes_colunas_def)




text \<open>
  C3. When the loader succeeds, the period order it returns is the derived header labels
  that are not \<open>geo\<close> and do not end in \<open>_flag\<close>, in the left-to-right order of the
  columns; it is also the category list attached to the period column, and its length is
  the number of such columns.
\<close>

theorem load_period_order:
  assumes "load_table value_name str_num parse bruto h d = Inr (tidy, po)"
    and "iloc_row bruto h = Inr cab"
  shows "po = filter (\<lambda>col. col \<noteq> ''geo'' \<and> \<not> endswith col ''_flag'')
                (montar_nomes_colunas str_num cab) \<and>
         categories tidy = po \<and>
         length po = card {j. j < length cab \<and>
                              montar_nomes_colunas str_num cab ! j \<noteq> ''geo'' \<and>
                              \<not> endswith (montar_nomes_colunas str_num cab ! j) ''_flag''}"
proof -
  from assms(1) obtain cab' where cab': "iloc_row bruto h = Inr cab'"
    and po: "po = filter value_label (montar_nomes_colunas str_num cab')"
    and cats: "categories tidy = po"
    by (rule load_table_Inr)
  from cab' assms(2) have eq: "cab' = cab" by simp
  have po': "po = filter (\<lambda>col. col \<noteq> ''geo'' \<and> \<not> endswith col ''_flag'')
                   (montar_nomes_colunas str_num cab)"
    using po unfolding eq by (simp add: value_label_def [abs_def])
  have "length po = card {j. j < length (montar_nomes_colunas str_num cab) \<and>
                              montar_nomes_colunas str_num cab ! j \<noteq> ''geo'' \<and>
                              \<not> endswith (montar_nomes_colunas str_num cab ! j) ''_flag''}"
    unfolding po' by (rule length_filter_conv_card)
  with po' cats show ?thesis by simp
qed

theorem load_period_order_witness:
  "load_table ''taxa_vaga'' str_num_sample parse_sample example_grid 0 1
   = Inr (\<lparr>tidy_rows = [\<lparr>geo = Text ''Spain'', trimestre = ''2022-Q1'',
                          taxa_vaga = Some (Finite (41 / 10))\<rparr>],
           categories = [''2022-Q1'', ''2022-Q2'']\<rparr>, [''2022-Q1'', ''2022-Q2'']) \<and>
   [''2022-Q1'', ''2022-Q2''] =
     filter (\<lambda>col. col \<noteq> ''geo'' \<and> \<not> endswith col ''_flag'')
       [''geo'', ''2022-Q1'', ''2022-Q1_flag'', ''2022-Q2'', ''2022-Q2_flag''] \<and>
   card {j. j < length [Text ''geo'', Text ''2022-Q1'', Empty, Text ''2022-Q2'', Empty] \<and>
            montar_nomes_colunas str_num_sample
              [Text ''geo'', Text ''2022-Q1'', Empty, Text ''2022-Q2'', Empty] ! j \<noteq> ''geo'' \<and>
            \<not> endswith (montar_nomes_colunas str_num_sample
              [Text ''geo'', Text ''2022-Q1'', Empty, Text ''2022-Q2'', Empty] ! j) ''_flag''} = 2"
proof -
  note run = example_grid_load [of str_num_sample parse_sample]
  note spec = load_period_order [OF run example_grid_header]
  from spec have "[''2022-Q1'', ''2022-Q2''] =
     filter (\<lambda>col. col \<noteq> ''geo'' \<and> \<not> endswith col ''_flag'')
       (montar_nomes_colunas str_num_sample
          [Text ''geo'', Text ''2022-Q1'', Empty, Text ''2022-Q2'', Empty])"
    by (rule conjunct1)
  then have labels: "[''2022-Q1'', ''2022-Q2''] =
     filter (\<lambda>col. col \<noteq> ''geo'' \<and> \<not> endswith col ''_flag'')
       [''geo'', ''2022-Q1'', ''2022-Q1_flag'', ''2022-Q2'', ''2022-Q2_flag'']"
    by (simp only: example_grid_columns)
  from spec have "length [''2022-Q1'', ''2022-Q2''] =
    card {j. j < length [Text ''geo'', Text ''2022-Q1'', Empty, Text ''2022-Q2'', Empty] \<and>
            montar_nomes_colunas str_num_sample
              [Text ''geo'', Text ''2022-Q1'', Empty, Text ''2022-Q2'', Empty] ! j \<noteq> ''geo'' \<and>
            \<not> endswith (montar_nomes_colunas str_num_sample
              [Text ''geo'', Text ''2022-Q1'', Empty, Text ''2022-Q2'', Empty] ! j) ''_flag''}"
    by (rule conjunct2 [THEN conjunct2])
  then have count: "card {j. j < length [Text ''geo'', Text ''2022-Q1'', Empty, Text ''2022-Q2'', Empty] \<and>
            montar_nomes_colunas str_num_sample
              [Text ''geo'', Text ''2022-Q1'', Empty, Text ''2022-Q2'', Empty] ! j \<noteq> ''geo'' \<and>
            \<not> endswith (montar_nomes_colunas str_num_sample
              [Text ''geo'', Text ''2022-Q1'', Empty, Text ''2022-Q2'', Empty] ! j) ''_flag''} = 2"
    by simp
  from run labels count show ?thesis by (intro conjI)
qed

text \<open>
  C4. When the loader succeeds, every record is the long row of a data row whose
  identifier cell is present, and the result does not depend on the data rows whose
  identifier cell is missing: any sheet with the same header row and the same data rows
  with an identifier loads to the same result.
\<close>

theorem load_drops_rows_without_identifier:
  assumes "load_table value_name str_num parse bruto h d = Inr (tidy, po)"
    and "iloc_row bruto h = Inr cab"
  shows "(\<forall>r \<in> set (tidy_rows tidy).
            \<exists>row \<in> set (iloc_from bruto d).
              notna (cell_at row 0) \<and>
              r = long_row parse (montar_nomes_colunas str_num cab) (trimestre r) row) \<and>
         (\<forall>bruto' h' d'.
            iloc_row bruto' h' = Inr cab \<and> kept_rows bruto' d' = kept_rows bruto d \<longrightarrow>
            load_table value_name str_num parse bruto' h' d' = Inr (tidy, po))"
proof -
  let ?cols = "montar_nomes_colunas str_num cab"
  have rows: "tidy_rows tidy =
           concat (map (\<lambda>c. map (long_row parse ?cols c)
                       (filter (\<lambda>row. yields_value parse (cell_at row (label_index ?cols c)))
                               (kept_rows bruto d))) po)"
    by (rule tidy_rows_blocks [OF assms])
  have src: "\<exists>row \<in> set (iloc_from bruto d).
               notna (cell_at row 0) \<and> r = long_row parse ?cols (trimestre r) row"
    if "r \<in> set (tidy_rows tidy)" for r
  proof -
    from that obtain c row where "row \<in> set (kept_rows bruto d)"
      and r: "r = long_row parse ?cols c row"
      unfolding rows by auto
    then have "row \<in> set (iloc_from bruto d)" "notna (cell_at row 0)"
      by (simp_all add: kept_rows_def)
    moreover from r have "trimestre r = c" by (simp add: long_row_def)
    ultimately show ?thesis using r by blast
  qed
  from assms have ne: "cab \<noteq> []"
    by (auto simp: load_table_def Let_def geo_in_montar split: if_splits)
  have idx0: "label_index ?cols ''geo'' = 0" by (rule label_index_geo [OF ne])
  have same: "load_table value_name str_num parse bruto' h' d' = Inr (tidy, po)"
    if "iloc_row bruto' h' = Inr cab" and "kept_rows bruto' d' = kept_rows bruto d"
    for bruto' h' d'
  proof -
    have "load_table value_name str_num parse bruto' h' d' =
          load_table value_name str_num parse bruto h d"
      using that assms(2) unfolding load_table_def kept_rows_def
      by (simp add: Let_def idx0)
    with assms(1) show ?thesis by simp
  qed
  from src same show ?thesis by blast
qed

theorem load_drops_rows_without_identifier_witness:
  "load_table ''taxa_vaga'' str_num_sample parse_sample example_grid 0 1
   = Inr (\<lparr>tidy_rows = [\<lparr>geo = Text ''Spain'', trimestre = ''2022-Q1'',
                          taxa_vaga = Some (Finite (41 / 10))\<rparr>],
           categories = [''2022-Q1'', ''2022-Q2'']\<rparr>, [''2022-Q1'', ''2022-Q2'']) \<and>
   load_table ''taxa_vaga'' str_num_sample parse_sample (take 2 example_grid) 0 1
   = Inr (\<lparr>tidy_rows = [\<lparr>geo = Text ''Spain'', trimestre = ''2022-Q1'',
                          taxa_vaga = Some (Finite (41 / 10))\<rparr>],
           categories = [''2022-Q1'', ''2022-Q2'']\<rparr>, [''2022-Q1'', ''2022-Q2''])"
proof -
  note run = example_grid_load [of str_num_sample parse_sample]
  note spec = load_drops_rows_without_identifier [OF run example_grid_header]
  have hdr: "iloc_row (take 2 example_grid) 0
             = Inr [Text ''geo'', Text ''2022-Q1'', Empty, Text ''2022-Q2'', Empty]"
    by (simp add: iloc_row_def example_grid_def)
  have kept: "kept_rows (take 2 example_grid) 1 = kept_rows example_grid 1"
    by (simp add: kept_rows_def iloc_from_def example_grid_def notna_def cell_at_def)
  from spec hdr kept
  have "load_table ''taxa_vaga'' str_num_sample parse_sample (take 2 example_grid) 0 1
   = Inr (\<lparr>tidy_rows = [\<lparr>geo = Text ''Spain'', trimestre = ''2022-Q1'',
                          taxa_vaga = Some (Finite (41 / 10))\<rparr>],
           categories = [''2022-Q1'', ''2022-Q2'']\<rparr>, [''2022-Q1'', ''2022-Q2''])"
    by blast
  with run show ?thesis by (intro conjI)
qed



text \<open>
  C6. When no record has an entity among the requested ones, the renderer raises its
  \<^verbatim>\<open>ValueError\<close> (the empty-selection error of the specification) and leaves the file
  system as it was: no directory is made and no image is saved. This holds for both
  scripts.
\<close>

theorem plot_empty_selection:
  assumes "\<forall>r \<in> set (tidy_rows tidy). \<forall>s. geo r = Text s \<longrightarrow> s \<notin> set paises"
  shows "plotar_taxa_vagas tidy ordem paises nome_aba caminho fs = (Inl ValueError, fs) \<and>
         plot_job_vacancies tidy ordem paises caminho fs = (Inl ValueError, fs)"
proof -
  have "\<not> isin (geo r) paises" if "r \<in> set (tidy_rows tidy)" for r
    using assms that by (cases "geo r") auto
  then have "filter (\<lambda>r. isin (geo r) paises) (tidy_rows tidy) = []"
    by (simp add: filter_empty_conv)
  then show ?thesis
    by (simp add: plotar_taxa_vagas_def plot_job_vacancies_def plot_lines_def)
qed

theorem plot_empty_selection_witness:
  "plotar_taxa_vagas
     \<lparr>tidy_rows = [\<lparr>geo = Text ''Germany'', trimestre = ''2022-Q1'',
                    taxa_vaga = Some (Finite 3)\<rparr>],
      categories = [''2022-Q1'']\<rparr>
     [''2022-Q1''] [''Unknown Country''] ''Sheet 19'' [''plots'', ''g.png''] []
   = (Inl ValueError, []) \<and>
   plot_job_vacancies
     \<lparr>tidy_rows = [\<lparr>geo = Text ''Germany'', trimestre = ''2022-Q1'',
                    taxa_vaga = Some (Finite 3)\<rparr>],
      categories = [''2022-Q1'']\<rparr>
     [''2022-Q1''] [''Unknown Country''] [''plots'', ''g.png''] []
   = (Inl ValueError, [])"
  by (rule plot_empty_selection) simp

text \<open>
  C7, as the specification has it, holds for every grid. A sheet may name one entity on
  two data rows: the long table then has two records under one (entity, period) key, with
  the two values, and a wide table keyed on (entity, period) cannot hold both.
\<close>

theorem roundtrip_repeated_entity:
  "load_table ''taxa_vaga'' str_num_sample parse_sample repeated_entity 0 1
     = Inr (\<lparr>tidy_rows =
              [\<lparr>geo = Text ''Spain'', trimestre = ''2022-Q1'', taxa_vaga = Some (Finite 1)\<rparr>,
               \<lparr>geo = Text ''Spain'', trimestre = ''2022-Q1'', taxa_vaga = Some (Finite 2)\<rparr>],
             categories = [''2022-Q1'']\<rparr>, [''2022-Q1'']) \<and>
   spec_pivot [\<lparr>geo = Text ''Spain'', trimestre = ''2022-Q1'', taxa_vaga = Some (Finite 1)\<rparr>,
          \<lparr>geo = Text ''Spain'', trimestre = ''2022-Q1'', taxa_vaga = Some (Finite 2)\<rparr>]
     = Inl ValueError"
  by (simp add: load_eval repeated_entity_def spec_pivot_def)

text \<open>
  C7, amended. When the loader succeeds and the kept data rows carry pairwise different
  identifiers, the long table pivots to a wide table keyed on (entity, period) in which
  every numeric cell of a value column is found again under the identifier of its row and
  the label of its column, and a cell that is the sentinel or fails the coercion has no
  entry.
\<close>

theorem roundtrip_distinct_entities:
  assumes "load_table value_name str_num parse bruto h d = Inr (tidy, po)"
    and "iloc_row bruto h = Inr cab"
    and "distinct (map (\<lambda>row. replace_sentinel (cell_at row 0)) (kept_rows bruto d))"
  shows "\<exists>wide. spec_pivot (tidy_rows tidy) = Inr wide \<and>
           (\<forall>row \<in> set (kept_rows bruto d). \<forall>j < length cab.
              montar_nomes_colunas str_num cab ! j \<in> set po \<longrightarrow>
                (\<forall>n. cell_at row j = Num n \<longrightarrow>
                   wide (replace_sentinel (cell_at row 0), montar_nomes_colunas str_num cab ! j)
                     = Some (Some n)) \<and>
                (\<not> yields_value parse (cell_at row j) \<longrightarrow>
                   wide (replace_sentinel (cell_at row 0), montar_nomes_colunas str_num cab ! j)
                     = None))"
proof -
  let ?cols = "montar_nomes_colunas str_num cab"
  let ?key = "\<lambda>row. replace_sentinel (cell_at row 0)"
  let ?ok = "\<lambda>c row. yields_value parse (cell_at row (label_index ?cols c))"
  let ?kept = "kept_rows bruto d"
  let ?pairs = "map (\<lambda>r. ((geo r, trimestre r), taxa_vaga r)) (tidy_rows tidy)"
  from assms(1) obtain cab' where cab': "iloc_row bruto h = Inr cab'"
    and po: "po = filter value_label (montar_nomes_colunas str_num cab')"
    and dist: "distinct po"
    by (rule load_table_Inr)
  from cab' assms(2) have eq: "cab' = cab" by simp
  have rows: "tidy_rows tidy = concat (map (\<lambda>c. map (long_row parse ?cols c) (filter (?ok c) ?kept)) po)"
    by (rule tidy_rows_blocks [OF assms(1,2)])
  have keys: "map (\<lambda>r. (geo r, trimestre r)) (tidy_rows tidy) =
              concat (map (\<lambda>c. map (\<lambda>row. (?key row, c)) (filter (?ok c) ?kept)) po)"
    by (rule tidy_keys [OF assms(1,2)])
  have dkeys: "distinct (map (\<lambda>r. (geo r, trimestre r)) (tidy_rows tidy))"
    unfolding keys using dist assms(3) by (rule distinct_key_blocks)
  then have piv: "spec_pivot (tidy_rows tidy) = Inr (map_of ?pairs)"
    by (simp add: spec_pivot_def)
  have fstp: "map fst ?pairs = map (\<lambda>r. (geo r, trimestre r)) (tidy_rows tidy)"
    by (simp add: comp_def)
  have inj: "inj_on ?key (set ?kept)"
    using assms(3) by (simp add: distinct_map)
  have pos: "j < length cab \<Longrightarrow> ?cols ! j \<in> set po \<Longrightarrow> label_index ?cols (?cols ! j) = j" for j
    using label_index_unique [of value_label ?cols j] dist
    unfolding po eq by simp
  have found: "map_of ?pairs (?key row, ?cols ! j) = Some (Some n)"
    if "row \<in> set ?kept" "j < length cab" "?cols ! j \<in> set po" "cell_at row j = Num n"
    for row j n
  proof -
    have ok: "?ok (?cols ! j) row"
      using that by (simp add: pos yields_value_def)
    have "long_row parse ?cols (?cols ! j) row \<in> set (tidy_rows tidy)"
      unfolding rows using that(1,3) ok by auto
    then have "((?key row, ?cols ! j), Some n) \<in> set ?pairs"
      using that(2,3,4)
      by (force simp: long_row_def source_cell_def pos replace_sentinel_def image_iff)
    moreover have "distinct (map fst ?pairs)"
      using dkeys by (simp only: fstp)
    ultimately show ?thesis by (rule map_of_is_SomeI [rotated])
  qed
  have absent: "map_of ?pairs (?key row, ?cols ! j) = None"
    if "row \<in> set ?kept" "j < length cab" "?cols ! j \<in> set po"
       "\<not> yields_value parse (cell_at row j)"
    for row j
  proof -
    have "(?key row, ?cols ! j) \<notin> set (map (\<lambda>r. (geo r, trimestre r)) (tidy_rows tidy))"
    proof
      assume "(?key row, ?cols ! j) \<in> set (map (\<lambda>r. (geo r, trimestre r)) (tidy_rows tidy))"
      then obtain row' where r': "row' \<in> set ?kept" "?ok (?cols ! j) row'" "?key row' = ?key row"
        unfolding keys by auto
      with inj that(1) have "row' = row" by (auto dest: inj_onD)
      with r'(2) that(2,3,4) show False by (simp add: pos)
    qed
    then have "(?key row, ?cols ! j) \<notin> fst ` set ?pairs"
      using fstp by (metis set_map)
    then show ?thesis by (simp add: map_of_eq_None_iff)
  qed
  from piv found absent show ?thesis by blast
qed

theorem roundtrip_distinct_entities_witness:
  "\<exists>wide. spec_pivot [\<lparr>geo = Text ''Spain'', trimestre = ''2022-Q1'',
                    taxa_vaga = Some (Finite (41 / 10))\<rparr>] = Inr wide \<and>
          wide (Text ''Spain'', ''2022-Q1'') = Some (Some (Finite (41 / 10))) \<and>
          wide (Text ''Spain'', ''2022-Q2'') = None"
proof -
  note run = example_grid_load [of str_num_sample parse_sample]
  have d: "distinct (map (\<lambda>row. replace_sentinel (cell_at row 0)) (kept_rows example_grid 1))"
    by (simp add: example_grid_kept)
  from roundtrip_distinct_entities [OF run example_grid_header d]
  obtain wide where piv: "spec_pivot [\<lparr>geo = Text ''Spain'', trimestre = ''2022-Q1'',
                    taxa_vaga = Some (Finite (41 / 10))\<rparr>] = Inr wide"
    and cells: "\<forall>row \<in> set (kept_rows example_grid 1).
       \<forall>j < length [Text ''geo'', Text ''2022-Q1'', Empty, Text ''2022-Q2'', Empty].
         montar_nomes_colunas str_num_sample
           [Text ''geo'', Text ''2022-Q1'', Empty, Text ''2022-Q2'', Empty] ! j
           \<in> set [''2022-Q1'', ''2022-Q2''] \<longrightarrow>
         (\<forall>n. cell_at row j = Num n \<longrightarrow>
            wide (replace_sentinel (cell_at row 0),
                  montar_nomes_colunas str_num_sample
                    [Text ''geo'', Text ''2022-Q1'', Empty, Text ''2022-Q2'', Empty] ! j)
              = Some (Some n)) \<and>
         (\<not> yields_value parse_sample (cell_at row j) \<longrightarrow>
            wide (replace_sentinel (cell_at row 0),
                  montar_nomes_colunas str_num_sample
                    [Text ''geo'', Text ''2022-Q1'', Empty, Text ''2022-Q2'', Empty] ! j)
              = None)"
    by auto
  let ?row = "[Text ''Spain'', Num (Finite (41 / 10)), Text ''u'', Text '':'', Text ''u'']"
  have mem: "?row \<in> set (kept_rows example_grid 1)"
    by (simp add: example_grid_kept)
  from cells [rule_format, OF mem, of 1]
  have a: "wide (Text ''Spain'', ''2022-Q1'') = Some (Some (Finite (41 / 10)))"
    by (simp add: example_grid_columns cell_at_def replace_sentinel_def)
  from cells [rule_format, OF mem, of 3]
  have b: "wide (Text ''Spain'', ''2022-Q2'') = None"
    by (simp add: example_grid_columns cell_at_def replace_sentinel_def yields_value_def)
  from piv a b show ?thesis by blast
qed

text \<open>
  C8, as the specification has it, asks for a layout error when the first data row lies
  outside the sheet and when the sheet has no value column. The loader checks neither:
  the slice \<^verbatim>\<open>iloc[linha_inicio_dados:]\<close> of a start beyond the last row is the empty frame,
  and \<^verbatim>\<open>melt\<close> of the identifier column alone is the empty long table. Both load without
  an error, to an empty record set.
\<close>

theorem load_layout_unchecked:
  "load_table ''taxa_vaga'' str_num_sample parse_sample example_grid 0 7
     = Inr (\<lparr>tidy_rows = [], categories = [''2022-Q1'', ''2022-Q2'']\<rparr>,
            [''2022-Q1'', ''2022-Q2'']) \<and>
   load_table ''taxa_vaga'' str_num_sample parse_sample single_column 0 1
     = Inr (\<lparr>tidy_rows = [], categories = []\<rparr>, [])"
  by (simp add: load_eval example_grid_def single_column_def)

text \<open>
  C8, amended. The loader ends with an index error exactly when the header row index lies
  outside the rows of the sheet (a negative index counts from the end). The index of the
  first data row is never checked: whether the loader raises, and with which error, does
  not depend on it, and when it lies beyond the last row and the loader succeeds, the
  record set is empty. A sheet whose header row has the identifier column alone loads to
  the empty record set with the empty period order.
\<close>

theorem load_index_error_iff:
  "(load_table value_name str_num parse bruto h d = Inl IndexError \<longleftrightarrow>
      \<not> (- int (length bruto) \<le> h \<and> h < int (length bruto))) \<and>
   (\<forall>d' e. load_table value_name str_num parse bruto h d = Inl e \<longleftrightarrow>
            load_table value_name str_num parse bruto h d' = Inl e) \<and>
   (\<forall>tidy po. load_table value_name str_num parse bruto h d = Inr (tidy, po) \<and>
              int (length bruto) \<le> d \<longrightarrow> tidy_rows tidy = []) \<and>
   (\<forall>cab. iloc_row bruto h = Inr cab \<and> length cab = 1 \<longrightarrow>
      load_table value_name str_num parse bruto h d
        = Inr (\<lparr>tidy_rows = [], categories = []\<rparr>, []))"
proof (intro conjI allI impI)
  show "load_table value_name str_num parse bruto h d = Inl IndexError \<longleftrightarrow>
          \<not> (- int (length bruto) \<le> h \<and> h < int (length bruto))"
  proof (cases "iloc_row bruto h")
    case (Inl e)
    then have "e = IndexError" "\<not> (- int (length bruto) \<le> h \<and> h < int (length bruto))"
      by (auto simp: iloc_row_def Let_def split: if_splits)
    with Inl show ?thesis by (simp add: load_table_def)
  next
    case (Inr cab)
    then have inb: "- int (length bruto) \<le> h \<and> h < int (length bruto)"
      by (auto simp: iloc_row_def Let_def split: if_splits)
    from Inr have "load_table value_name str_num parse bruto h d \<noteq> Inl IndexError"
      by (simp add: load_table_def Let_def)
    with inb show ?thesis by simp
  qed
next
  fix d' e
  show "load_table value_name str_num parse bruto h d = Inl e \<longleftrightarrow>
        load_table value_name str_num parse bruto h d' = Inl e"
    by (cases "iloc_row bruto h") (simp_all add: load_table_def Let_def)
next
  fix tidy po
  assume a: "load_table value_name str_num parse bruto h d = Inr (tidy, po) \<and>
             int (length bruto) \<le> d"
  then have run: "load_table value_name str_num parse bruto h d = Inr (tidy, po)"
    and far: "int (length bruto) \<le> d" by simp_all
  from run obtain cab where cab: "iloc_row bruto h = Inr cab"
    by (rule load_table_Inr)
  from far have "kept_rows bruto d = []"
    by (simp add: kept_rows_def iloc_from_def Let_def)
  with tidy_rows_blocks [OF run cab] show "tidy_rows tidy = []" by simp
next
  fix cab
  assume a: "iloc_row bruto h = Inr cab \<and> length cab = 1"
  then obtain c where cab: "cab = [c]"
    by (cases cab) auto
  from a cab show "load_table value_name str_num parse bruto h d
        = Inr (\<lparr>tidy_rows = [], categories = []\<rparr>, [])"
    by (simp add: load_table_def Let_def montar_nomes_colunas_def melt_def dropna_def)
qed

theorem load_index_error_iff_witness:
  "load_table ''taxa_vaga'' str_num_sample parse_sample example_grid 3 4 = Inl IndexError \<and>
   load_table ''taxa_vaga'' str_num_sample parse_sample example_grid (- 3) 1 \<noteq> Inl IndexError \<and>
   load_table ''taxa_vaga'' str_num_sample parse_sample example_grid 0 7 \<noteq> Inl KeyError \<and>
   load_table ''taxa_vaga'' str_num_sample parse_sample single_column 0 1
        = Inr (\<lparr>tidy_rows = [], categories = []\<rparr>, [])"
proof -
  have "load_table ''taxa_vaga'' str_num_sample parse_sample example_grid 3 4 = Inl IndexError"
    using load_index_error_iff [of "''taxa_vaga''" str_num_sample parse_sample example_grid 3 4]
    by (simp add: example_grid_def)
  moreover
  have "load_table ''taxa_vaga'' str_num_sample parse_sample example_grid (- 3) 1 \<noteq> Inl IndexError"
    using load_index_error_iff [of "''taxa_vaga''" str_num_sample parse_sample example_grid "- 3" 1]
    by (simp add: example_grid_def)
  moreover
  have "load_table ''taxa_vaga'' str_num_sample parse_sample example_grid 0 1 = Inl KeyError \<longleftrightarrow>
        load_table ''taxa_vaga'' str_num_sample parse_sample example_grid 0 7 = Inl KeyError"
    using load_index_error_iff [of "''taxa_vaga''" str_num_sample parse_sample example_grid 0 1]
    by blast
  then have "load_table ''taxa_vaga'' str_num_sample parse_sample example_grid 0 7 \<noteq> Inl KeyError"
    by (simp add: example_grid_load)
  moreover
  have "iloc_row single_column 0 = Inr [Text ''geo'']"
    by (simp add: iloc_row_def single_column_def)
  then have "load_table ''taxa_vaga'' str_num_sample parse_sample single_column 0 1
        = Inr (\<lparr>tidy_rows = [], categories = []\<rparr>, [])"
    using load_index_error_iff [of "''taxa_vaga''" str_num_sample parse_sample single_column 0 1]
    by simp
  ultimately show ?thesis by (intro conjI)
qed

text \<open>
  C9, as the specification has it, asks for the records of one entity to be written
  contiguously. \<^verbatim>\<open>melt\<close> stacks the table period by period and nothing sorts it before
  \<^verbatim>\<open>to_csv\<close>: with two entities and two periods the lines of Spain are the first and the
  third.
\<close>

theorem csv_not_entity_major:
  "load_table ''taxa_vaga'' str_num_sample parse_sample two_by_two 0 1
   = Inr (\<lparr>tidy_rows =
            [\<lparr>geo = Text ''Spain'', trimestre = ''2021-Q1'', taxa_vaga = Some (Finite 1)\<rparr>,
             \<lparr>geo = Text ''France'', trimestre = ''2021-Q1'', taxa_vaga = Some (Finite 2)\<rparr>,
             \<lparr>geo = Text ''Spain'', trimestre = ''2020-Q4'', taxa_vaga = Some (Finite 3)\<rparr>,
             \<lparr>geo = Text ''France'', trimestre = ''2020-Q4'', taxa_vaga = Some (Finite 4)\<rparr>],
           categories = [''2021-Q1'', ''2020-Q4'']\<rparr>, [''2021-Q1'', ''2020-Q4'']) \<and>
   to_csv [''geo'', ''trimestre'', ''taxa_vaga'']
     \<lparr>tidy_rows =
            [\<lparr>geo = Text ''Spain'', trimestre = ''2021-Q1'', taxa_vaga = Some (Finite 1)\<rparr>,
             \<lparr>geo = Text ''France'', trimestre = ''2021-Q1'', taxa_vaga = Some (Finite 2)\<rparr>,
             \<lparr>geo = Text ''Spain'', trimestre = ''2020-Q4'', taxa_vaga = Some (Finite 3)\<rparr>,
             \<lparr>geo = Text ''France'', trimestre = ''2020-Q4'', taxa_vaga = Some (Finite 4)\<rparr>],
           categories = [''2021-Q1'', ''2020-Q4'']\<rparr>
   = ([''geo'', ''trimestre'', ''taxa_vaga''],
      [(Text ''Spain'', ''2021-Q1'', Some (Finite 1)),
       (Text ''France'', ''2021-Q1'', Some (Finite 2)),
       (Text ''Spain'', ''2020-Q4'', Some (Finite 3)),
       (Text ''France'', ''2020-Q4'', Some (Finite 4))])"
  by (simp add: two_by_two_load to_csv_def)

text \<open>
  C9, amended. The lines of the written CSV are in period-major, data-row-minor order:
  the periods follow the period order, and all lines of one period are written
  contiguously, in the order of the data rows of the sheet (one line per kept row whose
  cell yields a value), before any line of a later period. So of two lines, of the same
  entity or not, the one whose period comes earlier in the period order is written first.
\<close>

theorem csv_period_major:
  assumes "load_table value_name str_num parse bruto h d = Inr (tidy, po)"
    and "iloc_row bruto h = Inr cab"
  shows "snd (to_csv header tidy) =
           concat (map (\<lambda>c.
             map (\<lambda>row. (replace_sentinel (cell_at row 0), c,
                          to_numeric parse
                            (cell_at row (label_index (montar_nomes_colunas str_num cab) c))))
                 (filter (\<lambda>row. yields_value parse
                            (cell_at row (label_index (montar_nomes_colunas str_num cab) c)))
                         (kept_rows bruto d))) po) \<and>
         sorted (map (\<lambda>(g, p, v). label_index po p) (snd (to_csv header tidy)))"
proof -
  let ?cols = "montar_nomes_colunas str_num cab"
  let ?F = "\<lambda>c. map (long_row parse ?cols c)
                   (filter (\<lambda>row. yields_value parse (cell_at row (label_index ?cols c)))
                           (kept_rows bruto d))"
  have rows: "tidy_rows tidy = concat (map ?F po)"
    by (rule tidy_rows_blocks [OF assms])
  from assms(1) have dist: "distinct po"
    by (rule load_table_Inr)
  have per: "r \<in> set (?F c) \<Longrightarrow> trimestre r = c" for c r
    by (auto simp: long_row_def)
  have srt: "sorted (map (\<lambda>r. label_index po (trimestre r)) (tidy_rows tidy))"
    unfolding rows using dist per by (rule period_codes_sorted)
  have lines: "snd (to_csv header tidy) =
           concat (map (\<lambda>c.
             map (\<lambda>row. (replace_sentinel (cell_at row 0), c,
                          to_numeric parse (cell_at row (label_index ?cols c))))
                 (filter (\<lambda>row. yields_value parse (cell_at row (label_index ?cols c)))
                         (kept_rows bruto d))) po)"
    unfolding to_csv_def rows snd_conv map_concat map_map
    by (simp only: comp_def csv_block)
  have "map (\<lambda>(g, p, v). label_index po p) (snd (to_csv header tidy)) =
        map (\<lambda>r. label_index po (trimestre r)) (tidy_rows tidy)"
    by (simp add: to_csv_def comp_def)
  with srt lines show ?thesis by simp
qed

theorem csv_period_major_witness:
  "load_table ''taxa_vaga'' str_num_sample parse_sample two_by_two 0 1
   = Inr (\<lparr>tidy_rows =
            [\<lparr>geo = Text ''Spain'', trimestre = ''2021-Q1'', taxa_vaga = Some (Finite 1)\<rparr>,
             \<lparr>geo = Text ''France'', trimestre = ''2021-Q1'', taxa_vaga = Some (Finite 2)\<rparr>,
             \<lparr>geo = Text ''Spain'', trimestre = ''2020-Q4'', taxa_vaga = Some (Finite 3)\<rparr>,
             \<lparr>geo = Text ''France'', trimestre = ''2020-Q4'', taxa_vaga = Some (Finite 4)\<rparr>],
           categories = [''2021-Q1'', ''2020-Q4'']\<rparr>, [''2021-Q1'', ''2020-Q4'']) \<and>
   sorted (map (\<lambda>(g, p, v). label_index [''2021-Q1'', ''2020-Q4''] p)
     (snd (to_csv [''geo'', ''trimestre'', ''taxa_vaga'']
        \<lparr>tidy_rows =
            [\<lparr>geo = Text ''Spain'', trimestre = ''2021-Q1'', taxa_vaga = Some (Finite 1)\<rparr>,
             \<lparr>geo = Text ''France'', trimestre = ''2021-Q1'', taxa_vaga = Some (Finite 2)\<rparr>,
             \<lparr>geo = Text ''Spain'', trimestre = ''2020-Q4'', taxa_vaga = Some (Finite 3)\<rparr>,
             \<lparr>geo = Text ''France'', trimestre = ''2020-Q4'', taxa_vaga = Some (Finite 4)\<rparr>],
           categories = [''2021-Q1'', ''2020-Q4'']\<rparr>)))"
proof -
  note run = two_by_two_load [of str_num_sample parse_sample]
  note spec = csv_period_major [OF run two_by_two_header,
                of "[''geo'', ''trimestre'', ''taxa_vaga'']"]
  from run spec [THEN conjunct2] show ?thesis by (intro conjI)
qed

text \<open>
  C10. A column after the first whose header cell is present but whose text ends in
  \<open>_flag\<close> keeps that text as its label, and is left out of the period order and of the
  records exactly as a derived flag column is: membership of a label in the period order
  is decided by the label alone (not \<open>geo\<close>, no \<open>_flag\<close> suffix). The example has such a
  column full of numbers and loads to no record at all.
\<close>

theorem flag_named_column_excluded:
  assumes "load_table value_name str_num parse bruto h d = Inr (tidy, po)"
    and "iloc_row bruto h = Inr cab"
    and "0 < j" and "j < length cab" and "notna (cab ! j)"
    and "endswith (str str_num (cab ! j)) ''_flag''"
  shows "montar_nomes_colunas str_num cab ! j = str str_num (cab ! j) \<and>
         montar_nomes_colunas str_num cab ! j \<notin> set po \<and>
         (\<forall>r \<in> set (tidy_rows tidy). trimestre r \<noteq> montar_nomes_colunas str_num cab ! j) \<and>
         (\<forall>c \<in> set (montar_nomes_colunas str_num cab).
            c \<in> set po \<longleftrightarrow> c \<noteq> ''geo'' \<and> \<not> endswith c ''_flag'')"
proof -
  let ?cols = "montar_nomes_colunas str_num cab"
  have label: "?cols ! j = str str_num (cab ! j)"
    using montar_loop_step [of 0 "[]" j cab str_num] assms(3,4,5)
    by (simp add: montar_nomes_colunas_def notna_def)
  from assms(1) obtain cab' where cab': "iloc_row bruto h = Inr cab'"
    and po: "po = filter value_label (montar_nomes_colunas str_num cab')"
    by (rule load_table_Inr)
  from cab' assms(2) have eq: "cab' = cab" by simp
  have mem: "c \<in> set po \<longleftrightarrow> c \<in> set ?cols \<and> c \<noteq> ''geo'' \<and> \<not> endswith c ''_flag''" for c
    unfolding po eq by (auto simp: value_label_def)
  have out: "?cols ! j \<notin> set po"
    using mem [of "?cols ! j"] label assms(6) by simp
  have rows: "tidy_rows tidy =
           concat (map (\<lambda>c. map (long_row parse ?cols c)
                       (filter (\<lambda>row. yields_value parse (cell_at row (label_index ?cols c)))
                               (kept_rows bruto d))) po)"
    by (rule tidy_rows_blocks [OF assms(1,2)])
  have "trimestre r \<in> set po" if "r \<in> set (tidy_rows tidy)" for r
    using that unfolding rows by (auto simp: long_row_def)
  with out have none: "\<forall>r \<in> set (tidy_rows tidy). trimestre r \<noteq> ?cols ! j"
    by metis
  from label out none mem show ?thesis by blast
qed

theorem flag_named_column_excluded_witness:
  "load_table ''taxa_vaga'' str_num_sample parse_sample flag_named_header 0 1
     = Inr (\<lparr>tidy_rows = [], categories = []\<rparr>, []) \<and>
   montar_nomes_colunas str_num_sample [Text ''geo'', Text ''red_flag''] ! 1 = ''red_flag'' \<and>
   ''red_flag'' \<notin> set ([] :: string list)"
proof -
  have run: "load_table ''taxa_vaga'' str_num_sample parse_sample flag_named_header 0 1
     = Inr (\<lparr>tidy_rows = [], categories = []\<rparr>, [])"
    by (simp add: load_eval flag_named_header_def)
  have hdr: "iloc_row flag_named_header 0 = Inr [Text ''geo'', Text ''red_flag'']"
    by (simp add: iloc_row_def flag_named_header_def)
  have "montar_nomes_colunas str_num_sample [Text ''geo'', Text ''red_flag''] ! 1
          = str str_num_sample ([Text ''geo'', Text ''red_flag''] ! 1) \<and>
        montar_nomes_colunas str_num_sample [Text ''geo'', Text ''red_flag''] ! 1
          \<notin> set ([] :: string list)"
    using flag_named_column_excluded [OF run hdr, of 1]
    by (simp add: notna_def endswith_def)
  with run show ?thesis by simp
qed

end
